theory Spec2Isabelle
  imports Main "HOL-Library.Sublist"
begin

section \<open>Values\<close>

text \<open>
  A value produced by \<open>JSON.parse\<close>. The handlers only test such values with
  \<open>typeof\<close>, \<open>Array.isArray\<close> and \<open>.length\<close>, and pass them on; a number is
  never inspected, and is kept as an integer.
\<close>

datatype json =
    JNull
  | JBool bool
  | JNum int
  | JStr string
  | JArr "json list"
  | JObj "(string \<times> json) list"

text \<open>
  JavaScript truthiness of a value typed \<open>string | undefined | null\<close>:
  \<open>None\<close> stands for \<open>undefined\<close> or \<open>null\<close>, and the empty string is falsy.
\<close>

fun truthy :: "string option \<Rightarrow> bool" where
  "truthy None = False"
| "truthy (Some s) = (s \<noteq> [])"

text \<open>\<open>a || b\<close> on two optional strings, and \<open>a || d\<close> with a string default.\<close>

definition js_or :: "string option \<Rightarrow> string option \<Rightarrow> string option" where
  "js_or a b = (if truthy a then a else b)"

fun or_default :: "string option \<Rightarrow> string \<Rightarrow> string" where
  "or_default None d = d"
| "or_default (Some s) d = (if s \<noteq> [] then s else d)"

definition nl :: string where
  "nl = [CHR 0x0A]"

section \<open>Entities of the shared schema\<close>

text \<open>
  Modelled from the spec: the entity types \<open>Transcript\<close>, \<open>Summary\<close>,
  \<open>EmailShare\<close> and their insert types are declared in \<open>@shared/schema\<close>, which is
  not among the sources. The fields are those of the specification's data model, which
  are also the ones \<open>storage.ts\<close> writes and \<open>routes.ts\<close> reads; an optional or
  nullable field is an \<open>option\<close>. \<open>createdAt\<close> and \<open>sentAt\<close> are the instants
  \<open>new Date()\<close> returned, in milliseconds.
\<close>

record transcript =
  tr_id :: string
  tr_content :: string
  tr_filename :: "string option"
  tr_createdAt :: nat

record insert_transcript =
  it_content :: string
  it_filename :: "string option"

record summary =
  s_id :: string
  s_transcriptId :: string
  s_prompt :: string
  s_content :: string
  s_editedContent :: "string option"
  s_createdAt :: nat

record insert_summary =
  is_transcriptId :: string
  is_prompt :: string
  is_content :: "string option"

record insert_email_share =
  ie_summaryId :: string
  ie_recipients :: string
  ie_subject :: string
  ie_message :: "string option"
  ie_includeTranscript :: "bool option"

record email_share =
  e_id :: string
  e_summaryId :: string
  e_recipients :: string
  e_subject :: string
  e_message :: "string option"
  e_includeTranscript :: "bool option"
  e_sentAt :: nat

section \<open>MemStorage (storage.ts)\<close>

text \<open>
  The three \<open>Map\<close>s of \<open>MemStorage\<close>. Each \<open>create\<close> method takes the
  identifier \<open>randomUUID()\<close> returned and the current instant as arguments and
  returns the entity with the updated storage.
\<close>

record mem_storage =
  transcripts :: "string \<rightharpoonup> transcript"
  summaries :: "string \<rightharpoonup> summary"
  emailShares :: "string \<rightharpoonup> email_share"

definition new_storage :: mem_storage where
  "new_storage = \<lparr>transcripts = Map.empty, summaries = Map.empty, emailShares = Map.empty\<rparr>"

definition createTranscript ::
  "mem_storage \<Rightarrow> insert_transcript \<Rightarrow> string \<Rightarrow> nat \<Rightarrow> transcript \<times> mem_storage" where
  "createTranscript st ins uuid now =
     (let t = \<lparr>tr_id = uuid, tr_content = it_content ins,
                tr_filename = it_filename ins, tr_createdAt = now\<rparr>
      in (t, st\<lparr>transcripts := (transcripts st)(uuid \<mapsto> t)\<rparr>))"

definition getTranscript :: "mem_storage \<Rightarrow> string \<Rightarrow> transcript option" where
  "getTranscript st i = transcripts st i"

definition createSummary ::
  "mem_storage \<Rightarrow> insert_summary \<Rightarrow> string \<Rightarrow> nat \<Rightarrow> summary \<times> mem_storage" where
  "createSummary st ins uuid now =
     (let s = \<lparr>s_id = uuid, s_transcriptId = is_transcriptId ins, s_prompt = is_prompt ins,
                s_content = or_default (is_content ins) [],
                s_editedContent = None, s_createdAt = now\<rparr>
      in (s, st\<lparr>summaries := (summaries st)(uuid \<mapsto> s)\<rparr>))"

definition getSummary :: "mem_storage \<Rightarrow> string \<Rightarrow> summary option" where
  "getSummary st i = summaries st i"

definition updateSummaryContent ::
  "mem_storage \<Rightarrow> string \<Rightarrow> string \<Rightarrow> summary option \<times> mem_storage" where
  "updateSummaryContent st i editedContent =
     (case summaries st i of
        Some s \<Rightarrow>
          (let updatedSummary = s\<lparr>s_editedContent := Some editedContent\<rparr>
           in (Some updatedSummary, st\<lparr>summaries := (summaries st)(i \<mapsto> updatedSummary)\<rparr>))
      | None \<Rightarrow> (None, st))"

definition createEmailShare ::
  "mem_storage \<Rightarrow> insert_email_share \<Rightarrow> string \<Rightarrow> nat \<Rightarrow> email_share \<times> mem_storage" where
  "createEmailShare st ins uuid now =
     (let e = \<lparr>e_id = uuid, e_summaryId = ie_summaryId ins, e_recipients = ie_recipients ins,
                e_subject = ie_subject ins, e_message = ie_message ins,
                e_includeTranscript = ie_includeTranscript ins, e_sentAt = now\<rparr>
      in (e, st\<lparr>emailShares := (emailShares st)(uuid \<mapsto> e)\<rparr>))"

definition getEmailShare :: "mem_storage \<Rightarrow> string \<Rightarrow> email_share option" where
  "getEmailShare st i = emailShares st i"

section \<open>HTTP responses (routes.ts)\<close>

text \<open>
  \<open>res.json(entity)\<close> answers with status 200 and the entity;
  \<open>res.status(n).json({ message })\<close> is \<open>Failure n message\<close>.
\<close>

datatype response =
    SummaryJson summary
  | EmailShareJson email_share
  | Failure nat string

section \<open>The AI provider chain of POST /api/summaries\<close>

datatype provider = Gemini | OpenAI | Groq

text \<open>
  What one \<open>fetch\<close> to a provider comes to inside its \<open>try\<close> block:
  \<^item> \<open>Threw\<close>: \<open>fetch\<close>, \<open>json()\<close> or the property path into the body threw,
    so the \<open>catch\<close> ran and nothing was assigned;
  \<^item> \<open>NotOk errorText\<close>: the response was not \<open>ok\<close>;
  \<^item> \<open>Ok text\<close>: the response was \<open>ok\<close> and \<open>text\<close> is the value read at the
    end of the property path, of the type \<open>string | undefined\<close> that the handler
    declares for \<open>aiSummary\<close>.
\<close>

datatype fetch_outcome = Threw | NotOk string | Ok "string option"

text \<open>
  The process environment of one request: the four credential variables and, for each
  provider, the outcome of calling it in this request.
\<close>

record ai_env =
  GOOGLE_API_KEY :: "string option"
  OPENAI_API_KEY :: "string option"
  GROQ_API_KEY :: "string option"
  VITE_GROQ_API_KEY :: "string option"
  gemini_fetch :: fetch_outcome
  openai_fetch :: fetch_outcome
  groq_fetch :: fetch_outcome

definition googleApiKey :: "ai_env \<Rightarrow> string option" where
  "googleApiKey env = GOOGLE_API_KEY env"

definition openaiApiKey :: "ai_env \<Rightarrow> string option" where
  "openaiApiKey env = OPENAI_API_KEY env"

definition groqApiKey :: "ai_env \<Rightarrow> string option" where
  "groqApiKey env = js_or (GROQ_API_KEY env) (VITE_GROQ_API_KEY env)"

text \<open>
  The local variables \<open>aiSummary\<close> and \<open>apiUsed\<close>, with the list of providers
  fetched so far, oldest first.
\<close>

record chain_state =
  aiSummary :: "string option"
  apiUsed :: string
  calls :: "provider list"

definition chain_init :: chain_state where
  "chain_init = \<lparr>aiSummary = None, apiUsed = [], calls = []\<rparr>"

definition try_gemini :: "ai_env \<Rightarrow> chain_state \<Rightarrow> chain_state" where
  "try_gemini env c =
     (if truthy (googleApiKey env) then
        (case gemini_fetch env of
           Ok t \<Rightarrow> c\<lparr>aiSummary := t, apiUsed := ''Google Gemini'', calls := calls c @ [Gemini]\<rparr>
         | NotOk errorText \<Rightarrow> c\<lparr>calls := calls c @ [Gemini]\<rparr>
         | Threw \<Rightarrow> c\<lparr>calls := calls c @ [Gemini]\<rparr>)
      else c)"

definition try_openai :: "ai_env \<Rightarrow> chain_state \<Rightarrow> chain_state" where
  "try_openai env c =
     (if \<not> truthy (aiSummary c) \<and> truthy (openaiApiKey env) then
        (case openai_fetch env of
           Ok t \<Rightarrow> c\<lparr>aiSummary := t, apiUsed := ''OpenAI'', calls := calls c @ [OpenAI]\<rparr>
         | NotOk errorText \<Rightarrow> c\<lparr>calls := calls c @ [OpenAI]\<rparr>
         | Threw \<Rightarrow> c\<lparr>calls := calls c @ [OpenAI]\<rparr>)
      else c)"

definition try_groq :: "ai_env \<Rightarrow> chain_state \<Rightarrow> chain_state" where
  "try_groq env c =
     (if \<not> truthy (aiSummary c) \<and> truthy (groqApiKey env) then
        (case groq_fetch env of
           Ok t \<Rightarrow> c\<lparr>aiSummary := t, apiUsed := ''Groq'', calls := calls c @ [Groq]\<rparr>
         | NotOk errorText \<Rightarrow> c\<lparr>calls := calls c @ [Groq]\<rparr>
         | Threw \<Rightarrow> c\<lparr>calls := calls c @ [Groq]\<rparr>)
      else c)"

definition provider_chain :: "ai_env \<Rightarrow> chain_state" where
  "provider_chain env = try_groq env (try_openai env (try_gemini env chain_init))"

section \<open>POST /api/summaries\<close>

text \<open>
  The request body, typed as the client's \<open>CreateSummaryRequest\<close>; \<open>None\<close> is a
  field that was not sent. The handler takes the environment, the identifier and the
  instant that \<open>storage.createSummary\<close> would draw, the storage and the body, and
  answers with the response, the storage and the providers it fetched, in order.
\<close>

record summary_request =
  rq_transcriptId :: "string option"
  rq_prompt :: "string option"

definition post_api_summaries ::
  "ai_env \<Rightarrow> string \<Rightarrow> nat \<Rightarrow> mem_storage \<Rightarrow> summary_request
     \<Rightarrow> response \<times> mem_storage \<times> provider list" where
  "post_api_summaries env uuid now st body =
     (case rq_transcriptId body of
        None \<Rightarrow> (Failure 400 ''transcriptId is required'', st, [])
      | Some transcriptId \<Rightarrow>
          if transcriptId = [] then (Failure 400 ''transcriptId is required'', st, [])
          else
     (case rq_prompt body of
        None \<Rightarrow> (Failure 400 ''prompt is required'', st, [])
      | Some prompt \<Rightarrow>
          if prompt = [] then (Failure 400 ''prompt is required'', st, [])
          else
     (case getTranscript st transcriptId of
        None \<Rightarrow> (Failure 404 ''Transcript not found'', st, [])
      | Some transcript \<Rightarrow>
          (let c = provider_chain env in
           if \<not> truthy (googleApiKey env) \<and> \<not> truthy (openaiApiKey env)
              \<and> \<not> truthy (groqApiKey env)
           then (Failure 500
                  ''No AI API key configured (GOOGLE_API_KEY, OPENAI_API_KEY, or GROQ_API_KEY required)'',
                 st, calls c)
           else if \<not> truthy (aiSummary c)
           then (Failure 500 ''Failed to generate summary with available AI services'',
                 st, calls c)
           else
             (let (summary, st') =
                    createSummary st
                      \<lparr>is_transcriptId = transcriptId, is_prompt = prompt,
                       is_content = aiSummary c\<rparr> uuid now
              in (SummaryJson summary, st', calls c))))))"

section \<open>PATCH /api/summaries/:id and GET /api/summaries/:id\<close>

text \<open>
  \<open>editedContent\<close> is the body field as parsed from JSON, \<open>None\<close> when the body
  has no such field.
\<close>

definition patch_api_summaries ::
  "mem_storage \<Rightarrow> string \<Rightarrow> json option \<Rightarrow> response \<times> mem_storage" where
  "patch_api_summaries st i editedContent =
     (case editedContent of
        Some (JStr e) \<Rightarrow>
          (case updateSummaryContent st i e of
             (None, st') \<Rightarrow> (Failure 404 ''Summary not found'', st')
           | (Some summary, st') \<Rightarrow> (SummaryJson summary, st'))
      | _ \<Rightarrow> (Failure 400 ''editedContent must be a string'', st))"

definition get_api_summaries :: "mem_storage \<Rightarrow> string \<Rightarrow> response" where
  "get_api_summaries st i =
     (case getSummary st i of
        None \<Rightarrow> Failure 404 ''Summary not found''
      | Some summary \<Rightarrow> SummaryJson summary)"

section \<open>POST /api/email/send\<close>

text \<open>
  The outcome of \<open>insertEmailShareSchema.parse(req.body)\<close>. The schema is declared in
  \<open>@shared/schema\<close>, which is not among the sources, so its verdict is an input of
  the handler: the validation message of the \<open>ZodError\<close> it threw, or the typed value
  it returned.
\<close>

datatype 'a parse_outcome = ZodError string | Parsed 'a

record attachment =
  a_filename :: string
  a_content :: string
  a_type :: string

text \<open>The argument of \<open>resend.emails.send\<close>; \<open>m_attachments = None\<close> is \<open>undefined\<close>.\<close>

record mail =
  m_from :: string
  m_to :: "json list"
  m_subject :: string
  m_text :: string
  m_attachments :: "attachment list option"

text \<open>
  What the mail client comes to:
  \<^item> \<open>SetupThrew\<close>: importing the module or constructing the client threw, before
    any send;
  \<^item> \<open>SendThrew\<close>: \<open>emails.send\<close> threw;
  \<^item> \<open>SendError message\<close>: it returned a result whose \<open>error\<close> is set, a plain
    object with the optional field \<open>message\<close>;
  \<^item> \<open>SendOk\<close>: it returned a result without \<open>error\<close>.
\<close>

datatype send_outcome = SetupThrew | SendThrew | SendError "string option" | SendOk

text \<open>
  The environment of one request: the value \<open>JSON.parse(emailData.recipients)\<close>
  returns (\<open>None\<close> when it throws a \<open>SyntaxError\<close>) and the outcome of the mail
  client.
\<close>

record mail_env =
  recipients_json :: "json option"
  resend :: send_outcome

text \<open>The effects of the handler, in the order in which it performs them.\<close>

datatype effect = Sent mail | Saved email_share

definition summaryContent :: "summary \<Rightarrow> string" where
  "summaryContent s = or_default (s_editedContent s) (s_content s)"

definition emailBody :: "string option \<Rightarrow> summary \<Rightarrow> string" where
  "emailBody message s =
     (case message of
        Some m \<Rightarrow> if m \<noteq> [] then m @ nl @ nl @ ''---'' @ nl @ nl else []
      | None \<Rightarrow> [])
     @ ''MEETING SUMMARY'' @ nl @ nl @ summaryContent s"

definition attachments :: "insert_email_share \<Rightarrow> transcript \<Rightarrow> attachment list" where
  "attachments emailData t =
     (if ie_includeTranscript emailData = Some True \<and> tr_content t \<noteq> [] then
        [\<lparr>a_filename = or_default (tr_filename t) ''transcript.txt'',
          a_content = tr_content t, a_type = ''text/plain''\<rparr>]
      else [])"

definition compose_mail :: "insert_email_share \<Rightarrow> summary \<Rightarrow> transcript \<Rightarrow> json list \<Rightarrow> mail" where
  "compose_mail emailData s t recipients =
     \<lparr>m_from = ''no-reply@resend.dev'', m_to = recipients,
      m_subject = ie_subject emailData,
      m_text = emailBody (ie_message emailData) s,
      m_attachments =
        (if length (attachments emailData t) > 0 then Some (attachments emailData t) else None)\<rparr>"

definition dispatch ::
  "mail_env \<Rightarrow> string \<Rightarrow> nat \<Rightarrow> mem_storage \<Rightarrow> insert_email_share \<Rightarrow> mail
     \<Rightarrow> response \<times> mem_storage \<times> effect list" where
  "dispatch env uuid now st emailData m =
     (case resend env of
        SetupThrew \<Rightarrow> (Failure 500 ''Failed to send email'', st, [])
      | SendThrew \<Rightarrow> (Failure 500 ''Failed to send email'', st, [Sent m])
      | SendError message \<Rightarrow>
          (Failure 500 (''Resend error: '' @ or_default message ''[object Object]''),
           st, [Sent m])
      | SendOk \<Rightarrow>
          (let (emailShare, st') = createEmailShare st emailData uuid now
           in (EmailShareJson emailShare, st', [Sent m, Saved emailShare])))"

definition post_api_email_send ::
  "mail_env \<Rightarrow> string \<Rightarrow> nat \<Rightarrow> mem_storage \<Rightarrow> insert_email_share parse_outcome
     \<Rightarrow> response \<times> mem_storage \<times> effect list" where
  "post_api_email_send env uuid now st body =
     (case body of
        ZodError validationMessage \<Rightarrow> (Failure 400 validationMessage, st, [])
      | Parsed emailData \<Rightarrow>
     (case getSummary st (ie_summaryId emailData) of
        None \<Rightarrow> (Failure 404 ''Summary not found'', st, [])
      | Some summary \<Rightarrow>
     (case getTranscript st (s_transcriptId summary) of
        None \<Rightarrow> (Failure 404 ''Transcript not found'', st, [])
      | Some transcript \<Rightarrow>
     (case recipients_json env of
        None \<Rightarrow> (Failure 500 ''Failed to send email'', st, [])
      | Some (JArr recipients) \<Rightarrow>
          if length recipients = 0 then (Failure 400 ''Invalid recipients'', st, [])
          else dispatch env uuid now st emailData
                 (compose_mail emailData summary transcript recipients)
      | Some _ \<Rightarrow> (Failure 400 ''Invalid recipients'', st, [])))))"

section \<open>Vocabulary of the specification\<close>

text \<open>
  A provider is configured when its credential is truthy; \<open>outcome\<close> is what
  fetching it comes to in this request.
\<close>

fun configured :: "ai_env \<Rightarrow> provider \<Rightarrow> bool" where
  "configured env Gemini = truthy (googleApiKey env)"
| "configured env OpenAI = truthy (openaiApiKey env)"
| "configured env Groq = truthy (groqApiKey env)"

fun outcome :: "ai_env \<Rightarrow> provider \<Rightarrow> fetch_outcome" where
  "outcome env Gemini = gemini_fetch env"
| "outcome env OpenAI = openai_fetch env"
| "outcome env Groq = groq_fetch env"

fun provider_name :: "provider \<Rightarrow> string" where
  "provider_name Gemini = ''Google Gemini''"
| "provider_name OpenAI = ''OpenAI''"
| "provider_name Groq = ''Groq''"

text \<open>
  The specification's notion of success: a provider succeeds when it returns a
  non-empty text; an empty or absent text, a response that is not \<open>ok\<close> and an
  exception are failures.
\<close>

fun succeeds :: "fetch_outcome \<Rightarrow> bool" where
  "succeeds (Ok (Some t)) = (t \<noteq> [])"
| "succeeds (Ok None) = False"
| "succeeds (NotOk errorText) = False"
| "succeeds Threw = False"

text \<open>
  The specification's chain over a priority list: skip a provider that is not
  configured, call a configured one, and stop after the first call that succeeds.
  The result is the list of providers called.
\<close>

fun spec_chain_calls :: "ai_env \<Rightarrow> provider list \<Rightarrow> provider list" where
  "spec_chain_calls env [] = []"
| "spec_chain_calls env (p # ps) =
     (if configured env p then
        (if succeeds (outcome env p) then [p] else p # spec_chain_calls env ps)
      else spec_chain_calls env ps)"

text \<open>
  The specification's words for the effective content and the body of the email:
  \<open>editedContent\<close> if set, else \<open>content\<close>; the message, if present, followed by a
  separator line, then the fixed header and the effective content.
\<close>

definition spec_effective_content :: "summary \<Rightarrow> string" where
  "spec_effective_content s =
     (case s_editedContent s of Some e \<Rightarrow> e | None \<Rightarrow> s_content s)"

definition spec_email_body :: "string option \<Rightarrow> summary \<Rightarrow> string" where
  "spec_email_body message s =
     (case message of Some m \<Rightarrow> m @ nl @ nl @ ''---'' @ nl @ nl | None \<Rightarrow> [])
     @ ''MEETING SUMMARY'' @ nl @ nl @ spec_effective_content s"

text \<open>The check the handler makes on the parsed recipients.\<close>

fun invalid_recipients :: "json \<Rightarrow> bool" where
  "invalid_recipients (JArr rs) = (rs = [])"
| "invalid_recipients v = True"

section \<open>Sample requests\<close>

definition sample_transcript :: transcript where
  "sample_transcript =
     \<lparr>tr_id = ''t1'', tr_content = ''Alice: ship by Friday.'',
      tr_filename = Some ''standup.txt'', tr_createdAt = 1\<rparr>"

definition sample_summary :: summary where
  "sample_summary =
     \<lparr>s_id = ''s1'', s_transcriptId = ''t1'', s_prompt = ''list action items'',
      s_content = ''- Ship by Friday'', s_editedContent = None, s_createdAt = 2\<rparr>"

definition sample_storage :: mem_storage where
  "sample_storage =
     \<lparr>transcripts = [''t1'' \<mapsto> sample_transcript],
      summaries = [''s1'' \<mapsto> sample_summary],
      emailShares = Map.empty\<rparr>"

definition sample_request :: summary_request where
  "sample_request = \<lparr>rq_transcriptId = Some ''t1'', rq_prompt = Some ''list action items''\<rparr>"

text \<open>All three providers configured; Gemini is over quota and OpenAI answers.\<close>

definition env_openai_answers :: ai_env where
  "env_openai_answers =
     \<lparr>GOOGLE_API_KEY = Some ''g-key'', OPENAI_API_KEY = Some ''o-key'',
      GROQ_API_KEY = Some ''q-key'', VITE_GROQ_API_KEY = None,
      gemini_fetch = NotOk ''quota exceeded'',
      openai_fetch = Ok (Some ''- Ship by Friday''),
      groq_fetch = Ok (Some ''- Friday'')\<rparr>"

text \<open>Only Gemini configured, and it is over quota.\<close>

definition env_gemini_down :: ai_env where
  "env_gemini_down =
     \<lparr>GOOGLE_API_KEY = Some ''g-key'', OPENAI_API_KEY = None,
      GROQ_API_KEY = None, VITE_GROQ_API_KEY = None,
      gemini_fetch = NotOk ''quota exceeded'',
      openai_fetch = Threw, groq_fetch = Threw\<rparr>"

text \<open>No credential configured; one variable is set to the empty string.\<close>

definition env_no_key :: ai_env where
  "env_no_key =
     \<lparr>GOOGLE_API_KEY = None, OPENAI_API_KEY = Some [],
      GROQ_API_KEY = None, VITE_GROQ_API_KEY = None,
      gemini_fetch = Ok (Some ''- Ship by Friday''),
      openai_fetch = Ok (Some ''- Ship by Friday''),
      groq_fetch = Ok (Some ''- Ship by Friday'')\<rparr>"

definition sample_email :: insert_email_share where
  \<open>sample_email =
     \<lparr>ie_summaryId = ''s1'', ie_recipients = ''["a@x.com"]'',
      ie_subject = ''Meeting Summary'', ie_message = Some ''Hi all'',
      ie_includeTranscript = Some True\<rparr>\<close>

definition sample_mail_env :: mail_env where
  "sample_mail_env = \<lparr>recipients_json = Some (JArr [JStr ''a@x.com'']), resend = SendOk\<rparr>"

text \<open>The mail provider answers with an error.\<close>

definition env_mail_rejected :: mail_env where
  "env_mail_rejected =
     \<lparr>recipients_json = Some (JArr [JStr ''a@x.com'']),
      resend = SendError (Some ''Invalid API key'')\<rparr>"

text \<open>A recipients string that is a JSON array, but not of addresses.\<close>

definition email_to_nobody :: insert_email_share where
  \<open>email_to_nobody =
     \<lparr>ie_summaryId = ''s1'', ie_recipients = ''["not an address"]'',
      ie_subject = ''Meeting Summary'', ie_message = None,
      ie_includeTranscript = Some False\<rparr>\<close>

definition env_to_nobody :: mail_env where
  "env_to_nobody = \<lparr>recipients_json = Some (JArr [JStr ''not an address'']), resend = SendOk\<rparr>"

text \<open>The sample summary after an edit to the empty string.\<close>

definition storage_emptied_edit :: mem_storage where
  "storage_emptied_edit =
     \<lparr>transcripts = [''t1'' \<mapsto> sample_transcript],
      summaries = [''s1'' \<mapsto> sample_summary\<lparr>s_editedContent := Some []\<rparr>],
      emailShares = Map.empty\<rparr>"

section \<open>The provider chain, step by step\<close>

lemma succeeds_Ok: "succeeds (Ok t) = truthy t"
  by (cases t) simp_all

lemma succeeds_iff: "succeeds r \<longleftrightarrow> (\<exists>t. r = Ok (Some t) \<and> t \<noteq> [])"
  by (cases r rule: succeeds.cases) simp_all

lemma gemini_calls:
  "calls (try_gemini env c) = calls c @ (if configured env Gemini then [Gemini] else [])"
  by (simp add: try_gemini_def split: fetch_outcome.splits)

lemma openai_calls:
  "calls (try_openai env c) =
     calls c @ (if \<not> truthy (aiSummary c) \<and> configured env OpenAI then [OpenAI] else [])"
  by (simp add: try_openai_def split: fetch_outcome.splits)

lemma groq_calls:
  "calls (try_groq env c) =
     calls c @ (if \<not> truthy (aiSummary c) \<and> configured env Groq then [Groq] else [])"
  by (simp add: try_groq_def split: fetch_outcome.splits)

lemma gemini_init_truthy:
  "truthy (aiSummary (try_gemini env chain_init)) =
     (configured env Gemini \<and> succeeds (gemini_fetch env))"
  by (cases "gemini_fetch env")
     (simp_all add: try_gemini_def chain_init_def succeeds_Ok)

lemma openai_truthy:
  "\<not> truthy (aiSummary c) \<Longrightarrow>
   truthy (aiSummary (try_openai env c)) = (configured env OpenAI \<and> succeeds (openai_fetch env))"
  by (cases "openai_fetch env") (simp_all add: try_openai_def succeeds_Ok)

lemma openai_keep: "truthy (aiSummary c) \<Longrightarrow> try_openai env c = c"
  by (simp add: try_openai_def)

lemma groq_truthy:
  "\<not> truthy (aiSummary c) \<Longrightarrow>
   truthy (aiSummary (try_groq env c)) = (configured env Groq \<and> succeeds (groq_fetch env))"
  by (cases "groq_fetch env") (simp_all add: try_groq_def succeeds_Ok)

lemma groq_keep: "truthy (aiSummary c) \<Longrightarrow> try_groq env c = c"
  by (simp add: try_groq_def)

lemma gemini_sets:
  "configured env Gemini \<Longrightarrow> gemini_fetch env = Ok t \<Longrightarrow>
   aiSummary (try_gemini env c) = t \<and> apiUsed (try_gemini env c) = ''Google Gemini''"
  by (simp add: try_gemini_def)

lemma openai_sets:
  "\<not> truthy (aiSummary c) \<Longrightarrow> configured env OpenAI \<Longrightarrow> openai_fetch env = Ok t \<Longrightarrow>
   aiSummary (try_openai env c) = t \<and> apiUsed (try_openai env c) = ''OpenAI''"
  by (simp add: try_openai_def)

lemma groq_sets:
  "\<not> truthy (aiSummary c) \<Longrightarrow> configured env Groq \<Longrightarrow> groq_fetch env = Ok t \<Longrightarrow>
   aiSummary (try_groq env c) = t \<and> apiUsed (try_groq env c) = ''Groq''"
  by (simp add: try_groq_def)

lemma chain_calls: "calls (provider_chain env) = spec_chain_calls env [Gemini, OpenAI, Groq]"
proof (cases "truthy (aiSummary (try_gemini env chain_init))")
  case True
  then show ?thesis
    using gemini_init_truthy [of env]
    by (simp add: provider_chain_def openai_keep groq_keep gemini_calls chain_init_def)
next
  case g: False
  show ?thesis
  proof (cases "truthy (aiSummary (try_openai env (try_gemini env chain_init)))")
    case True
    then show ?thesis
      using g gemini_init_truthy [of env] openai_truthy [OF g, of env]
      by (simp add: provider_chain_def groq_keep openai_calls gemini_calls chain_init_def)
  next
    case False
    then show ?thesis
      using g gemini_init_truthy [of env] openai_truthy [OF g, of env]
      by (auto simp add: provider_chain_def groq_calls openai_calls gemini_calls chain_init_def)
  qed
qed

lemma spec_chain_configured: "p \<in> set (spec_chain_calls env ps) \<Longrightarrow> configured env p"
  by (induction ps) (auto split: if_splits)

lemma spec_chain_subset: "set (spec_chain_calls env ps) \<subseteq> set ps"
  by (induction ps) (auto split: if_splits)

lemma spec_chain_distinct: "distinct ps \<Longrightarrow> distinct (spec_chain_calls env ps)"
  using spec_chain_subset [of env] by (induction ps) (auto split: if_splits)

lemma spec_chain_subseq: "subseq (spec_chain_calls env ps) ps"
  by (induction ps) (auto split: if_splits)

lemma spec_chain_success_last:
  "p \<in> set (spec_chain_calls env ps) \<Longrightarrow> succeeds (outcome env p) \<Longrightarrow> distinct ps \<Longrightarrow>
   last (spec_chain_calls env ps) = p"
proof (induction ps)
  case Nil
  then show ?case by simp
next
  case (Cons q ps)
  show ?case
  proof (cases "configured env q \<and> succeeds (outcome env q)")
    case True
    with Cons.prems show ?thesis by simp
  next
    case False
    have "p \<noteq> q" using False Cons.prems(1,2) spec_chain_configured [of p env "q # ps"] by auto
    with Cons.prems False have in_tl: "p \<in> set (spec_chain_calls env ps)"
      by (auto split: if_splits)
    with Cons have "last (spec_chain_calls env ps) = p" by simp
    with in_tl False show ?thesis by (auto split: if_splits)
  qed
qed

lemma chain_gemini_result:
  assumes "configured env Gemini" and "gemini_fetch env = Ok (Some t)" and "t \<noteq> []"
  shows "aiSummary (provider_chain env) = Some t \<and> apiUsed (provider_chain env) = ''Google Gemini''"
proof -
  let ?g = "try_gemini env chain_init"
  have g: "aiSummary ?g = Some t \<and> apiUsed ?g = ''Google Gemini''"
    using assms gemini_sets by blast
  with assms(3) have "truthy (aiSummary ?g)" by simp
  then have "provider_chain env = ?g"
    by (simp add: provider_chain_def openai_keep groq_keep)
  with g show ?thesis by simp
qed

lemma chain_openai_result:
  assumes "\<not> configured env Gemini \<or> \<not> succeeds (gemini_fetch env)"
    and "configured env OpenAI" and "openai_fetch env = Ok (Some t)" and "t \<noteq> []"
  shows "aiSummary (provider_chain env) = Some t \<and> apiUsed (provider_chain env) = ''OpenAI''"
proof -
  let ?g = "try_gemini env chain_init"
  let ?o = "try_openai env ?g"
  have ng: "\<not> truthy (aiSummary ?g)" using assms(1) gemini_init_truthy by blast
  then have o: "aiSummary ?o = Some t \<and> apiUsed ?o = ''OpenAI''"
    using assms openai_sets by blast
  with assms(4) have "truthy (aiSummary ?o)" by simp
  then have "provider_chain env = ?o"
    by (simp add: provider_chain_def groq_keep)
  with o show ?thesis by simp
qed

lemma chain_groq_result:
  assumes "\<not> configured env Gemini \<or> \<not> succeeds (gemini_fetch env)"
    and "\<not> configured env OpenAI \<or> \<not> succeeds (openai_fetch env)"
    and "configured env Groq" and "groq_fetch env = Ok (Some t)" and "t \<noteq> []"
  shows "aiSummary (provider_chain env) = Some t \<and> apiUsed (provider_chain env) = ''Groq''"
proof -
  let ?g = "try_gemini env chain_init"
  let ?o = "try_openai env ?g"
  have ng: "\<not> truthy (aiSummary ?g)" using assms(1) gemini_init_truthy by blast
  then have no: "\<not> truthy (aiSummary ?o)" using assms(2) openai_truthy by auto
  then show ?thesis
    using assms groq_sets by (simp add: provider_chain_def)
qed

lemma chain_truthy:
  "truthy (aiSummary (provider_chain env)) =
     (\<exists>p \<in> set (calls (provider_chain env)). succeeds (outcome env p))"
proof (cases "truthy (aiSummary (try_gemini env chain_init))")
  case True
  then have "provider_chain env = try_gemini env chain_init"
    by (simp add: provider_chain_def openai_keep groq_keep)
  with True show ?thesis
    using gemini_init_truthy [of env] by (simp add: gemini_calls chain_init_def)
next
  case g: False
  show ?thesis
  proof (cases "truthy (aiSummary (try_openai env (try_gemini env chain_init)))")
    case True
    then have "provider_chain env = try_openai env (try_gemini env chain_init)"
      by (simp add: provider_chain_def groq_keep)
    with True show ?thesis
      using g openai_truthy [OF g, of env]
      by (simp add: openai_calls gemini_calls chain_init_def)
  next
    case False
    then show ?thesis
      using g gemini_init_truthy [of env] openai_truthy [OF g, of env] groq_truthy [OF False, of env]
      by (auto simp add: provider_chain_def groq_calls openai_calls gemini_calls chain_init_def)
  qed
qed

lemma chain_configured: "p \<in> set (calls (provider_chain env)) \<Longrightarrow> configured env p"
  unfolding chain_calls by (rule spec_chain_configured)

lemma chain_success:
  assumes "p \<in> set (calls (provider_chain env))" and "outcome env p = Ok (Some t)" and "t \<noteq> []"
  shows "aiSummary (provider_chain env) = Some t \<and> apiUsed (provider_chain env) = provider_name p"
proof (cases p)
  case Gemini
  have "configured env Gemini"
    using assms(1) Gemini chain_configured by blast
  then show ?thesis using assms Gemini chain_gemini_result [of env t] by simp
next
  case OpenAI
  have "configured env OpenAI" using assms(1) OpenAI chain_configured by blast
  moreover have "\<not> configured env Gemini \<or> \<not> succeeds (gemini_fetch env)"
    using assms(1) OpenAI by (auto simp: chain_calls split: if_splits)
  ultimately show ?thesis using assms OpenAI chain_openai_result [of env t] by simp
next
  case Groq
  have "configured env Groq" using assms(1) Groq chain_configured by blast
  moreover have "\<not> configured env Gemini \<or> \<not> succeeds (gemini_fetch env)"
    using assms(1) Groq by (auto simp: chain_calls split: if_splits)
  moreover have "\<not> configured env OpenAI \<or> \<not> succeeds (openai_fetch env)"
    using assms(1) Groq by (auto simp: chain_calls split: if_splits)
  ultimately show ?thesis using assms Groq chain_groq_result [of env t] by simp
qed

section \<open>Claims about the provider chain\<close>

text \<open>
  C2. The chain calls the providers in the fixed order Gemini, OpenAI, Groq, each only
  if its credential is configured, and stops after the first call that returns a
  non-empty text: the calls made are exactly those of the specification's chain, where
  an empty or absent text, like an error response or an exception, is a failure after
  which the next configured provider is called. No provider is called twice. A call
  that returns a non-empty text is the last one, and its text and its name are the
  result. In particular, when Gemini is not configured or fails and OpenAI returns a
  non-empty text, the result carries OpenAI's text and name and Groq is not called.
\<close>

theorem C2_provider_chain_priority:
  "calls (provider_chain env) = spec_chain_calls env [Gemini, OpenAI, Groq]
   \<and> subseq (calls (provider_chain env)) [Gemini, OpenAI, Groq]
   \<and> distinct (calls (provider_chain env))
   \<and> (\<forall>p \<in> set (calls (provider_chain env)). configured env p)
   \<and> (\<forall>p \<in> set (calls (provider_chain env)). succeeds (outcome env p) \<longrightarrow>
         last (calls (provider_chain env)) = p
         \<and> outcome env p = Ok (aiSummary (provider_chain env))
         \<and> apiUsed (provider_chain env) = provider_name p)
   \<and> (configured env Gemini \<and> configured env OpenAI
        \<and> (outcome env Gemini = Ok None \<or> outcome env Gemini = Ok (Some []))
        \<longrightarrow> take 2 (calls (provider_chain env)) = [Gemini, OpenAI])
   \<and> ((\<not> configured env Gemini \<or> \<not> succeeds (outcome env Gemini))
        \<and> configured env OpenAI \<and> outcome env OpenAI = Ok (Some t) \<and> t \<noteq> [] \<longrightarrow>
         aiSummary (provider_chain env) = Some t
         \<and> apiUsed (provider_chain env) = ''OpenAI''
         \<and> last (calls (provider_chain env)) = OpenAI
         \<and> Groq \<notin> set (calls (provider_chain env)))"
proof -
  let ?cs = "calls (provider_chain env)"
  have order: "?cs = spec_chain_calls env [Gemini, OpenAI, Groq]"
    by (rule chain_calls)
  have sub: "subseq ?cs [Gemini, OpenAI, Groq]"
    unfolding order by (rule spec_chain_subseq)
  have dist: "distinct ?cs"
    unfolding order by (rule spec_chain_distinct) simp
  have conf: "\<forall>p \<in> set ?cs. configured env p"
    using chain_configured by blast
  have stop: "\<forall>p \<in> set ?cs. succeeds (outcome env p) \<longrightarrow>
         last ?cs = p \<and> outcome env p = Ok (aiSummary (provider_chain env))
         \<and> apiUsed (provider_chain env) = provider_name p"
  proof (intro ballI impI)
    fix p assume p: "p \<in> set ?cs" and s: "succeeds (outcome env p)"
    from s obtain t where t: "outcome env p = Ok (Some t)" "t \<noteq> []"
      by (auto simp: succeeds_iff)
    have "last ?cs = p"
      using p s unfolding order by (intro spec_chain_success_last) simp_all
    with chain_success [OF p t] t
    show "last ?cs = p \<and> outcome env p = Ok (aiSummary (provider_chain env))
         \<and> apiUsed (provider_chain env) = provider_name p" by simp
  qed
  have empty: "configured env Gemini \<and> configured env OpenAI
        \<and> (outcome env Gemini = Ok None \<or> outcome env Gemini = Ok (Some []))
        \<longrightarrow> take 2 ?cs = [Gemini, OpenAI]"
    unfolding order by auto
  have ab: "(\<not> configured env Gemini \<or> \<not> succeeds (outcome env Gemini))
        \<and> configured env OpenAI \<and> outcome env OpenAI = Ok (Some t) \<and> t \<noteq> [] \<longrightarrow>
         aiSummary (provider_chain env) = Some t
         \<and> apiUsed (provider_chain env) = ''OpenAI''
         \<and> last ?cs = OpenAI
         \<and> Groq \<notin> set ?cs"
  proof (intro impI)
    assume h: "(\<not> configured env Gemini \<or> \<not> succeeds (outcome env Gemini))
        \<and> configured env OpenAI \<and> outcome env OpenAI = Ok (Some t) \<and> t \<noteq> []"
    then have r: "aiSummary (provider_chain env) = Some t \<and> apiUsed (provider_chain env) = ''OpenAI''"
      using chain_openai_result [of env t] by simp
    have "?cs = [OpenAI] \<or> ?cs = [Gemini, OpenAI]"
      using h unfolding order by auto
    with r show "aiSummary (provider_chain env) = Some t
         \<and> apiUsed (provider_chain env) = ''OpenAI''
         \<and> last ?cs = OpenAI \<and> Groq \<notin> set ?cs" by auto
  qed
  from order sub dist conf stop empty ab show ?thesis by blast
qed

theorem C2_provider_chain_priority_witness:
  "calls (provider_chain env_openai_answers) = [Gemini, OpenAI]
   \<and> aiSummary (provider_chain env_openai_answers) = Some ''- Ship by Friday''
   \<and> apiUsed (provider_chain env_openai_answers) = ''OpenAI''
   \<and> Groq \<notin> set (calls (provider_chain env_openai_answers))
   \<and> configured env_openai_answers Groq
   \<and> succeeds (outcome env_openai_answers Groq)"
  using C2_provider_chain_priority [of env_openai_answers "''- Ship by Friday''"]
  by (simp add: env_openai_answers_def googleApiKey_def openaiApiKey_def groqApiKey_def js_or_def)

section \<open>Claims about POST /api/summaries\<close>

lemma post_summaries_called:
  assumes "post_api_summaries env uuid now st body = (resp, st', cs)" and "cs \<noteq> []"
  shows "\<exists>tid prompt tr. rq_transcriptId body = Some tid \<and> tid \<noteq> []
           \<and> rq_prompt body = Some prompt \<and> prompt \<noteq> []
           \<and> transcripts st tid = Some tr \<and> cs = calls (provider_chain env)"
  using assms
  by (auto simp: post_api_summaries_def getTranscript_def Let_def
           split: option.splits if_splits prod.splits)

lemma post_summaries_generated:
  assumes "rq_transcriptId body = Some tid" and "tid \<noteq> []"
    and "rq_prompt body = Some prompt" and "prompt \<noteq> []"
    and "transcripts st tid = Some tr"
    and "aiSummary (provider_chain env) = Some text" and "text \<noteq> []"
    and "p \<in> set (calls (provider_chain env))"
  shows "post_api_summaries env uuid now st body =
           (SummaryJson \<lparr>s_id = uuid, s_transcriptId = tid, s_prompt = prompt,
                          s_content = text, s_editedContent = None, s_createdAt = now\<rparr>,
            st\<lparr>summaries := (summaries st)(uuid \<mapsto>
                 \<lparr>s_id = uuid, s_transcriptId = tid, s_prompt = prompt,
                  s_content = text, s_editedContent = None, s_createdAt = now\<rparr>)\<rparr>,
            calls (provider_chain env))"
proof -
  have "configured env p" using assms(8) by (rule chain_configured)
  then have keys: "\<not> (\<not> truthy (googleApiKey env) \<and> \<not> truthy (openaiApiKey env)
              \<and> \<not> truthy (groqApiKey env))"
    by (cases p) auto
  show ?thesis
    using assms(1-7) keys
    by (simp add: post_api_summaries_def getTranscript_def createSummary_def Let_def)
qed

lemma spec_chain_reaches:
  "p \<in> set ps \<Longrightarrow> configured env p \<Longrightarrow> succeeds (outcome env p) \<Longrightarrow>
   \<exists>q \<in> set (spec_chain_calls env ps). succeeds (outcome env q)"
  by (induction ps) auto

lemma chain_reaches:
  assumes "configured env p" and "succeeds (outcome env p)"
  shows "\<exists>q \<in> set (calls (provider_chain env)). succeeds (outcome env q)"
proof -
  have "p \<in> set [Gemini, OpenAI, Groq]" by (cases p) simp_all
  then show ?thesis
    unfolding chain_calls using assms by (rule spec_chain_reaches)
qed

lemma post_summaries_valid_calls:
  assumes "rq_transcriptId body = Some tid" and "tid \<noteq> []" and "truthy (rq_prompt body)"
    and "transcripts st tid = Some tr"
  shows "snd (snd (post_api_summaries env uuid now st body)) = calls (provider_chain env)"
proof -
  obtain prompt where "rq_prompt body = Some prompt" "prompt \<noteq> []"
    using assms(3) by (cases "rq_prompt body") auto
  with assms(1,2,4) show ?thesis
    by (simp add: post_api_summaries_def getTranscript_def createSummary_def Let_def)
qed

text \<open>
  C1. For a request whose \<open>transcriptId\<close> names a stored transcript: when both
  fields are present and some configured provider returns a non-empty text, a
  configured provider that returns a non-empty text is fetched in the call, and the
  response is a summary that is stored under its identifier and is what
  GET /api/summaries/:id then returns; its \<open>transcriptId\<close> and \<open>prompt\<close> are those
  of the request, its \<open>content\<close> is that provider's non-empty text and its
  \<open>editedContent\<close> is absent. The same holds of every call, whatever its fields, in
  which a configured provider is fetched and returns a non-empty text. The
  transcripts are unchanged.
\<close>

theorem C1_createSummary_persists:
  assumes "rq_transcriptId body = Some tid" and "transcripts st tid = Some tr"
    and "post_api_summaries env uuid now st body = (resp, st', cs)"
  shows "(\<forall>p. tid \<noteq> [] \<and> truthy (rq_prompt body)
            \<and> configured env p \<and> succeeds (outcome env p) \<longrightarrow>
          (\<exists>q text s. q \<in> set cs \<and> configured env q
             \<and> outcome env q = Ok (Some text) \<and> text \<noteq> []
             \<and> resp = SummaryJson s \<and> summaries st' (s_id s) = Some s
             \<and> get_api_summaries st' (s_id s) = SummaryJson s
             \<and> s_transcriptId s = tid \<and> rq_prompt body = Some (s_prompt s)
             \<and> s_content s = text \<and> s_editedContent s = None
             \<and> transcripts st' = transcripts st))
     \<and> (\<forall>p text. p \<in> set cs \<and> configured env p
            \<and> outcome env p = Ok (Some text) \<and> text \<noteq> [] \<longrightarrow>
          (\<exists>s. resp = SummaryJson s \<and> summaries st' (s_id s) = Some s
             \<and> get_api_summaries st' (s_id s) = SummaryJson s
             \<and> s_transcriptId s = tid \<and> rq_prompt body = Some (s_prompt s)
             \<and> s_content s = text \<and> s_content s \<noteq> [] \<and> s_editedContent s = None
             \<and> transcripts st' = transcripts st))"
proof -
  have run: "\<exists>s. resp = SummaryJson s \<and> summaries st' (s_id s) = Some s
             \<and> get_api_summaries st' (s_id s) = SummaryJson s
             \<and> s_transcriptId s = tid \<and> rq_prompt body = Some (s_prompt s)
             \<and> s_content s = answer \<and> s_content s \<noteq> [] \<and> s_editedContent s = None
             \<and> transcripts st' = transcripts st"
    if p: "p \<in> set cs" and o: "outcome env p = Ok (Some answer)" and t: "answer \<noteq> []"
    for p answer
  proof -
    from p have "cs \<noteq> []" by auto
    with assms(3) obtain tid' prompt where
      v: "rq_transcriptId body = Some tid'" "tid' \<noteq> []" "rq_prompt body = Some prompt"
         "prompt \<noteq> []" "cs = calls (provider_chain env)"
      using post_summaries_called by blast
    with assms(1) have tid: "tid' = tid" by simp
    have pc: "p \<in> set (calls (provider_chain env))" using p v(5) by simp
    have ai: "aiSummary (provider_chain env) = Some answer"
      using chain_success [OF pc o t] by simp
    let ?s = "\<lparr>s_id = uuid, s_transcriptId = tid, s_prompt = prompt,
               s_content = answer, s_editedContent = None, s_createdAt = now\<rparr>"
    have "post_api_summaries env uuid now st body =
            (SummaryJson ?s, st\<lparr>summaries := (summaries st)(uuid \<mapsto> ?s)\<rparr>,
             calls (provider_chain env))"
      using post_summaries_generated [OF assms(1) _ v(3,4) assms(2) ai t pc] v(2) tid
      by simp
    with assms(3) have r: "resp = SummaryJson ?s"
       and s: "st' = st\<lparr>summaries := (summaries st)(uuid \<mapsto> ?s)\<rparr>" by simp_all
    show ?thesis
      by (rule exI [of _ ?s]) (simp add: r s t v(3) get_api_summaries_def getSummary_def)
  qed
  have strong: "\<exists>q text s. q \<in> set cs \<and> configured env q
             \<and> outcome env q = Ok (Some text) \<and> text \<noteq> []
             \<and> resp = SummaryJson s \<and> summaries st' (s_id s) = Some s
             \<and> get_api_summaries st' (s_id s) = SummaryJson s
             \<and> s_transcriptId s = tid \<and> rq_prompt body = Some (s_prompt s)
             \<and> s_content s = text \<and> s_editedContent s = None
             \<and> transcripts st' = transcripts st"
    if v: "tid \<noteq> []" "truthy (rq_prompt body)" and c: "configured env p"
      and ok: "succeeds (outcome env p)" for p
  proof -
    have cs: "cs = calls (provider_chain env)"
      using post_summaries_valid_calls [OF assms(1) v assms(2), of env uuid now] assms(3)
      by simp
    from chain_reaches [OF c ok] obtain q where
      q: "q \<in> set cs" "succeeds (outcome env q)" unfolding cs by blast
    then obtain answer where t: "outcome env q = Ok (Some answer)" "answer \<noteq> []"
      by (auto simp: succeeds_iff)
    have "configured env q" using q(1) chain_configured unfolding cs by blast
    with run [OF q(1) t] q(1) t show ?thesis by blast
  qed
  from run strong show ?thesis by blast
qed

theorem C1_createSummary_persists_witness:
  "rq_transcriptId sample_request = Some ''t1''
   \<and> transcripts sample_storage ''t1'' = Some sample_transcript
   \<and> truthy (rq_prompt sample_request)
   \<and> configured env_openai_answers Groq
   \<and> succeeds (outcome env_openai_answers Groq)
   \<and> (\<exists>q text s.
         q \<in> set (snd (snd (post_api_summaries env_openai_answers ''s2'' 3 sample_storage
                                sample_request)))
       \<and> outcome env_openai_answers q = Ok (Some text) \<and> text \<noteq> []
       \<and> fst (post_api_summaries env_openai_answers ''s2'' 3 sample_storage sample_request)
           = SummaryJson s
       \<and> summaries (fst (snd (post_api_summaries env_openai_answers ''s2'' 3 sample_storage
                                 sample_request))) (s_id s) = Some s
       \<and> s_transcriptId s = ''t1'' \<and> s_content s = text \<and> s_editedContent s = None)"
proof -
  let ?r = "post_api_summaries env_openai_answers ''s2'' 3 sample_storage sample_request"
  have h1: "rq_transcriptId sample_request = Some ''t1''"
    and h4: "truthy (rq_prompt sample_request)"
    by (simp_all add: sample_request_def)
  have h2: "transcripts sample_storage ''t1'' = Some sample_transcript"
    by (simp add: sample_storage_def)
  have h3: "?r = (fst ?r, fst (snd ?r), snd (snd ?r))" by simp
  have h5: "''t1'' \<noteq> []" by simp
  have h6: "configured env_openai_answers Groq"
    by (simp add: env_openai_answers_def groqApiKey_def js_or_def)
  have h7: "succeeds (outcome env_openai_answers Groq)"
    by (simp add: env_openai_answers_def)
  from C1_createSummary_persists [OF h1 h2 h3] h5 h4 h6 h7
  have "\<exists>q text s. q \<in> set (snd (snd ?r)) \<and> configured env_openai_answers q
             \<and> outcome env_openai_answers q = Ok (Some text) \<and> text \<noteq> []
             \<and> fst ?r = SummaryJson s \<and> summaries (fst (snd ?r)) (s_id s) = Some s
             \<and> get_api_summaries (fst (snd ?r)) (s_id s) = SummaryJson s
             \<and> s_transcriptId s = ''t1'' \<and> rq_prompt sample_request = Some (s_prompt s)
             \<and> s_content s = text \<and> s_editedContent s = None
             \<and> transcripts (fst (snd ?r)) = transcripts sample_storage"
    by blast
  with h1 h2 h4 h6 h7 show ?thesis by blast
qed

text \<open>
  The handler checks that \<open>prompt\<close> is present before it looks the transcript up:
  with an empty prompt and an unknown \<open>transcriptId\<close> it answers 400
  "prompt is required", not 404.
\<close>

theorem C3_prompt_checked_before_lookup_counterexample:
  "transcripts sample_storage ''t-unknown'' = None
   \<and> post_api_summaries env_openai_answers ''s2'' 3 sample_storage
        \<lparr>rq_transcriptId = Some ''t-unknown'', rq_prompt = Some []\<rparr>
       = (Failure 400 ''prompt is required'', sample_storage, [])"
  by (simp add: post_api_summaries_def sample_storage_def)

text \<open>
  C3, amended. A call whose \<open>transcriptId\<close> is not in the storage fetches no provider
  and leaves the storage as it was. It answers 404 "Transcript not found" when both
  \<open>transcriptId\<close> and \<open>prompt\<close> are non-empty; an empty \<open>transcriptId\<close> is
  answered 400 "transcriptId is required", and an empty or missing \<open>prompt\<close> with a
  non-empty \<open>transcriptId\<close> is answered 400 "prompt is required".
\<close>

theorem C3_unknown_transcript:
  assumes "rq_transcriptId body = Some tid" and "transcripts st tid = None"
  shows "snd (post_api_summaries env uuid now st body) = (st, [])
     \<and> (tid \<noteq> [] \<and> truthy (rq_prompt body) \<longrightarrow>
          fst (post_api_summaries env uuid now st body) = Failure 404 ''Transcript not found'')
     \<and> (tid = [] \<longrightarrow>
          fst (post_api_summaries env uuid now st body) = Failure 400 ''transcriptId is required'')
     \<and> (tid \<noteq> [] \<and> \<not> truthy (rq_prompt body) \<longrightarrow>
          fst (post_api_summaries env uuid now st body) = Failure 400 ''prompt is required'')"
  using assms
  by (cases "rq_prompt body")
     (simp_all add: post_api_summaries_def getTranscript_def)

theorem C3_unknown_transcript_witness:
  "rq_transcriptId \<lparr>rq_transcriptId = Some ''t-unknown'', rq_prompt = Some ''list action items''\<rparr>
     = Some ''t-unknown''
   \<and> transcripts sample_storage ''t-unknown'' = None
   \<and> truthy (Some ''list action items'')
   \<and> post_api_summaries env_openai_answers ''s2'' 3 sample_storage
        \<lparr>rq_transcriptId = Some ''t-unknown'', rq_prompt = Some ''list action items''\<rparr>
      = (Failure 404 ''Transcript not found'', sample_storage, [])"
proof -
  let ?b = "\<lparr>rq_transcriptId = Some ''t-unknown'', rq_prompt = Some ''list action items''\<rparr>"
  have h1: "rq_transcriptId ?b = Some ''t-unknown''" by simp
  have h2: "transcripts sample_storage ''t-unknown'' = None"
    by (simp add: sample_storage_def)
  from C3_unknown_transcript [OF h1 h2, of env_openai_answers "''s2''" 3] h2
  show ?thesis by (simp add: prod_eq_iff)
qed

text \<open>
  The handler checks that \<open>prompt\<close> is present before it looks at the credentials:
  with no credential configured, a stored transcript and an empty prompt it answers 400
  "prompt is required", not the 500 for a missing key.
\<close>

theorem C4_prompt_checked_before_keys_counterexample:
  "\<not> truthy (GOOGLE_API_KEY env_no_key) \<and> \<not> truthy (OPENAI_API_KEY env_no_key)
   \<and> \<not> truthy (GROQ_API_KEY env_no_key) \<and> \<not> truthy (VITE_GROQ_API_KEY env_no_key)
   \<and> transcripts sample_storage ''t1'' = Some sample_transcript
   \<and> post_api_summaries env_no_key ''s2'' 3 sample_storage
        \<lparr>rq_transcriptId = Some ''t1'', rq_prompt = Some []\<rparr>
       = (Failure 400 ''prompt is required'', sample_storage, [])"
  by (simp add: post_api_summaries_def sample_storage_def env_no_key_def)

text \<open>
  C4, amended. When none of the credential variables is set to a non-empty value, a
  request for a stored transcript fetches no provider, leaves the storage as it was
  and is never answered with the message for providers that all failed. With both
  fields non-empty it is answered 500 with the message that no AI API key is
  configured; an empty or missing \<open>prompt\<close> is answered 400 "prompt is required",
  and an empty \<open>transcriptId\<close> 400 "transcriptId is required".
\<close>

theorem C4_no_credentials:
  assumes "\<not> truthy (GOOGLE_API_KEY env)" and "\<not> truthy (OPENAI_API_KEY env)"
    and "\<not> truthy (GROQ_API_KEY env)" and "\<not> truthy (VITE_GROQ_API_KEY env)"
    and "rq_transcriptId body = Some tid" and "transcripts st tid = Some tr"
  shows "snd (post_api_summaries env uuid now st body) = (st, [])
     \<and> fst (post_api_summaries env uuid now st body)
          \<noteq> Failure 500 ''Failed to generate summary with available AI services''
     \<and> (tid \<noteq> [] \<and> truthy (rq_prompt body) \<longrightarrow>
          fst (post_api_summaries env uuid now st body) =
            Failure 500
              ''No AI API key configured (GOOGLE_API_KEY, OPENAI_API_KEY, or GROQ_API_KEY required)'')
     \<and> (tid \<noteq> [] \<and> \<not> truthy (rq_prompt body) \<longrightarrow>
          fst (post_api_summaries env uuid now st body) = Failure 400 ''prompt is required'')
     \<and> (tid = [] \<longrightarrow>
          fst (post_api_summaries env uuid now st body) = Failure 400 ''transcriptId is required'')"
proof -
  have k: "\<not> truthy (googleApiKey env)" "\<not> truthy (openaiApiKey env)" "\<not> truthy (groqApiKey env)"
    using assms(1-4) by (simp_all add: googleApiKey_def openaiApiKey_def groqApiKey_def js_or_def)
  then have c: "calls (provider_chain env) = []"
    by (simp add: chain_calls)
  show ?thesis
    using assms(5,6) k c
    by (cases "rq_prompt body")
       (simp_all add: post_api_summaries_def getTranscript_def Let_def)
qed

theorem C4_no_credentials_witness:
  "\<not> truthy (GOOGLE_API_KEY env_no_key) \<and> \<not> truthy (OPENAI_API_KEY env_no_key)
   \<and> \<not> truthy (GROQ_API_KEY env_no_key) \<and> \<not> truthy (VITE_GROQ_API_KEY env_no_key)
   \<and> transcripts sample_storage ''t1'' = Some sample_transcript
   \<and> truthy (rq_prompt sample_request)
   \<and> post_api_summaries env_no_key ''s2'' 3 sample_storage sample_request =
       (Failure 500
          ''No AI API key configured (GOOGLE_API_KEY, OPENAI_API_KEY, or GROQ_API_KEY required)'',
        sample_storage, [])"
proof -
  have h1: "\<not> truthy (GOOGLE_API_KEY env_no_key)" and h2: "\<not> truthy (OPENAI_API_KEY env_no_key)"
    and h3: "\<not> truthy (GROQ_API_KEY env_no_key)" and h4: "\<not> truthy (VITE_GROQ_API_KEY env_no_key)"
    by (simp_all add: env_no_key_def)
  have h5: "rq_transcriptId sample_request = Some ''t1''" and h8: "truthy (rq_prompt sample_request)"
    by (simp_all add: sample_request_def)
  have h6: "''t1'' \<noteq> []" by simp
  have h7: "transcripts sample_storage ''t1'' = Some sample_transcript"
    by (simp add: sample_storage_def)
  from C4_no_credentials [OF h1 h2 h3 h4 h5 h7, of "''s2''" 3] h1 h2 h3 h4 h6 h7 h8
  show ?thesis by (simp add: prod_eq_iff)
qed

section \<open>Claims about POST /api/email/send\<close>

lemma send_validated:
  assumes "getSummary st (ie_summaryId d) = Some s"
    and "getTranscript st (s_transcriptId s) = Some t"
    and "recipients_json env = Some (JArr rs)" and "rs \<noteq> []"
  shows "post_api_email_send env uuid now st (Parsed d) =
           dispatch env uuid now st d (compose_mail d s t rs)"
  using assms by (simp add: post_api_email_send_def)

lemma send_invalid_recipients:
  assumes "getSummary st (ie_summaryId d) = Some s"
    and "getTranscript st (s_transcriptId s) = Some t"
    and "recipients_json env = Some v" and "invalid_recipients v"
  shows "post_api_email_send env uuid now st (Parsed d) =
           (Failure 400 ''Invalid recipients'', st, [])"
  using assms by (cases v) (simp_all add: post_api_email_send_def)

lemma dispatch_effects:
  "snd (snd (dispatch env uuid now st d m)) =
     (case resend env of
        SetupThrew \<Rightarrow> []
      | SendThrew \<Rightarrow> [Sent m]
      | SendError e \<Rightarrow> [Sent m]
      | SendOk \<Rightarrow> [Sent m, Saved (fst (createEmailShare st d uuid now))])"
  by (simp add: dispatch_def split: send_outcome.splits prod.splits)

text \<open>
  The handler accepts any non-empty JSON array as recipients: for the array holding
  the one string "not an address" it calls the mail provider with that recipient and
  answers with the stored share, not with 400.
\<close>

theorem C5_addresses_not_checked_counterexample:
  "recipients_json env_to_nobody = Some (JArr [JStr ''not an address''])
   \<and> fst (post_api_email_send env_to_nobody ''e1'' 4 sample_storage (Parsed email_to_nobody))
       = EmailShareJson
           \<lparr>e_id = ''e1'', e_summaryId = ''s1'',
            e_recipients = ie_recipients email_to_nobody,
            e_subject = ''Meeting Summary'', e_message = None,
            e_includeTranscript = Some False, e_sentAt = 4\<rparr>
   \<and> hd (snd (snd (post_api_email_send env_to_nobody ''e1'' 4 sample_storage
                      (Parsed email_to_nobody))))
       = Sent \<lparr>m_from = ''no-reply@resend.dev'', m_to = [JStr ''not an address''],
               m_subject = ''Meeting Summary'',
               m_text = ''MEETING SUMMARY'' @ nl @ nl @ ''- Ship by Friday'',
               m_attachments = None\<rparr>"
  by (simp add: post_api_email_send_def email_to_nobody_def env_to_nobody_def
        sample_storage_def sample_summary_def sample_transcript_def getSummary_def
        getTranscript_def dispatch_def createEmailShare_def compose_mail_def emailBody_def
        summaryContent_def attachments_def Let_def)

text \<open>
  C5, amended. For a body that passes the schema, the handler checks in this order:
  404 "Summary not found" when the summary is absent; then 404 "Transcript not found"
  when the summary's transcript is absent; then 400 "Invalid recipients" when the
  recipients string parses to a JSON value that is not an array or is the empty array.
  In each of these cases the mail provider is not called and the storage is unchanged.
  A non-empty array passes the check whatever its elements are, and the mail is sent
  to exactly those elements.
\<close>

theorem C5_validation_order:
  "(getSummary st (ie_summaryId d) = None \<longrightarrow>
      post_api_email_send env uuid now st (Parsed d)
        = (Failure 404 ''Summary not found'', st, []))
   \<and> (\<forall>s. getSummary st (ie_summaryId d) = Some s
          \<and> getTranscript st (s_transcriptId s) = None \<longrightarrow>
      post_api_email_send env uuid now st (Parsed d)
        = (Failure 404 ''Transcript not found'', st, []))
   \<and> (\<forall>s t v. getSummary st (ie_summaryId d) = Some s
          \<and> getTranscript st (s_transcriptId s) = Some t
          \<and> recipients_json env = Some v \<and> invalid_recipients v \<longrightarrow>
      post_api_email_send env uuid now st (Parsed d)
        = (Failure 400 ''Invalid recipients'', st, []))
   \<and> (\<forall>s t rs. getSummary st (ie_summaryId d) = Some s
          \<and> getTranscript st (s_transcriptId s) = Some t
          \<and> recipients_json env = Some (JArr rs) \<and> rs \<noteq> [] \<and> resend env \<noteq> SetupThrew \<longrightarrow>
      fst (post_api_email_send env uuid now st (Parsed d)) \<noteq> Failure 400 ''Invalid recipients''
      \<and> hd (snd (snd (post_api_email_send env uuid now st (Parsed d))))
          = Sent (compose_mail d s t rs)
      \<and> m_to (compose_mail d s t rs) = rs)"
proof (intro conjI allI impI)
  assume "getSummary st (ie_summaryId d) = None"
  then show "post_api_email_send env uuid now st (Parsed d)
        = (Failure 404 ''Summary not found'', st, [])"
    by (simp add: post_api_email_send_def)
next
  fix s
  assume "getSummary st (ie_summaryId d) = Some s \<and> getTranscript st (s_transcriptId s) = None"
  then show "post_api_email_send env uuid now st (Parsed d)
        = (Failure 404 ''Transcript not found'', st, [])"
    by (simp add: post_api_email_send_def)
next
  fix s t v
  assume "getSummary st (ie_summaryId d) = Some s
          \<and> getTranscript st (s_transcriptId s) = Some t
          \<and> recipients_json env = Some v \<and> invalid_recipients v"
  then show "post_api_email_send env uuid now st (Parsed d)
        = (Failure 400 ''Invalid recipients'', st, [])"
    using send_invalid_recipients by blast
next
  fix s t rs
  assume h: "getSummary st (ie_summaryId d) = Some s
          \<and> getTranscript st (s_transcriptId s) = Some t
          \<and> recipients_json env = Some (JArr rs) \<and> rs \<noteq> [] \<and> resend env \<noteq> SetupThrew"
  then have r: "post_api_email_send env uuid now st (Parsed d) =
           dispatch env uuid now st d (compose_mail d s t rs)"
    using send_validated by blast
  show "fst (post_api_email_send env uuid now st (Parsed d)) \<noteq> Failure 400 ''Invalid recipients''"
    unfolding r by (simp add: dispatch_def split: send_outcome.splits prod.splits)
  show "hd (snd (snd (post_api_email_send env uuid now st (Parsed d))))
          = Sent (compose_mail d s t rs)"
    unfolding r using h by (simp add: dispatch_effects split: send_outcome.splits)
  show "m_to (compose_mail d s t rs) = rs"
    by (simp add: compose_mail_def)
qed

theorem C5_validation_order_witness:
  "getSummary sample_storage (ie_summaryId sample_email) = Some sample_summary
   \<and> getTranscript sample_storage (s_transcriptId sample_summary) = Some sample_transcript
   \<and> invalid_recipients (JArr [])
   \<and> post_api_email_send \<lparr>recipients_json = Some (JArr []), resend = SendOk\<rparr> ''e1'' 4
        sample_storage (Parsed sample_email)
       = (Failure 400 ''Invalid recipients'', sample_storage, [])"
proof -
  let ?env = "\<lparr>recipients_json = Some (JArr []), resend = SendOk\<rparr>"
  have h1: "getSummary sample_storage (ie_summaryId sample_email) = Some sample_summary"
    by (simp add: getSummary_def sample_storage_def sample_email_def)
  have h2: "getTranscript sample_storage (s_transcriptId sample_summary) = Some sample_transcript"
    by (simp add: getTranscript_def sample_storage_def sample_summary_def)
  have h3: "recipients_json ?env = Some (JArr [])" by simp
  have h4: "invalid_recipients (JArr [])" by simp
  from C5_validation_order [of sample_storage sample_email ?env "''e1''" 4] h1 h2 h3 h4
  show ?thesis by blast
qed

text \<open>
  After an edit to the empty string \<open>editedContent\<close> is set, and the body in the
  specification's words ends with the header; the handler sends the original
  \<open>content\<close> after the header instead.
\<close>

theorem C6_empty_edit_not_sent_counterexample:
  "summaries storage_emptied_edit ''s1'' = Some (sample_summary\<lparr>s_editedContent := Some []\<rparr>)
   \<and> spec_email_body (ie_message sample_email) (sample_summary\<lparr>s_editedContent := Some []\<rparr>)
       = ''Hi all'' @ nl @ nl @ ''---'' @ nl @ nl @ ''MEETING SUMMARY'' @ nl @ nl
   \<and> hd (snd (snd (post_api_email_send sample_mail_env ''e1'' 4 storage_emptied_edit
                      (Parsed sample_email))))
       = Sent \<lparr>m_from = ''no-reply@resend.dev'', m_to = [JStr ''a@x.com''],
               m_subject = ''Meeting Summary'',
               m_text = ''Hi all'' @ nl @ nl @ ''---'' @ nl @ nl
                        @ ''MEETING SUMMARY'' @ nl @ nl @ ''- Ship by Friday'',
               m_attachments =
                 Some [\<lparr>a_filename = ''standup.txt'', a_content = ''Alice: ship by Friday.'',
                         a_type = ''text/plain''\<rparr>]\<rparr>
   \<and> ''Hi all'' @ nl @ nl @ ''---'' @ nl @ nl @ ''MEETING SUMMARY'' @ nl @ nl @ ''- Ship by Friday''
       \<noteq> spec_email_body (ie_message sample_email)
            (sample_summary\<lparr>s_editedContent := Some []\<rparr>)"
  by (simp add: post_api_email_send_def sample_email_def sample_mail_env_def
        storage_emptied_edit_def sample_summary_def sample_transcript_def getSummary_def
        getTranscript_def dispatch_def createEmailShare_def compose_mail_def emailBody_def
        summaryContent_def attachments_def Let_def spec_email_body_def
        spec_effective_content_def nl_def)

text \<open>
  C6, amended. When the request passes validation and the mail client is set up, the
  mail goes to the parsed recipients under the request's subject, and its text is: the
  message followed by a separator line when a non-empty message is present; then the
  header "MEETING SUMMARY" followed by \<open>editedContent\<close> when that is set and
  non-empty, and by \<open>content\<close> otherwise. When \<open>includeTranscript\<close> is true and the
  transcript's content is non-empty, the content is attached as a \<open>text/plain\<close> file
  named by the transcript's filename when one is recorded and non-empty, and
  "transcript.txt" otherwise; in every other case there is no attachment.
\<close>

theorem C6_email_composition:
  assumes "getSummary st (ie_summaryId d) = Some s"
    and "getTranscript st (s_transcriptId s) = Some t"
    and "recipients_json env = Some (JArr rs)" and "rs \<noteq> []"
    and "resend env \<noteq> SetupThrew"
  shows "\<exists>m. hd (snd (snd (post_api_email_send env uuid now st (Parsed d)))) = Sent m
     \<and> m_to m = rs \<and> m_subject m = ie_subject d
     \<and> m_text m =
         (case ie_message d of
            Some msg \<Rightarrow> if msg \<noteq> [] then msg @ nl @ nl @ ''---'' @ nl @ nl else []
          | None \<Rightarrow> [])
         @ ''MEETING SUMMARY'' @ nl @ nl
         @ (case s_editedContent s of
              Some e \<Rightarrow> if e \<noteq> [] then e else s_content s
            | None \<Rightarrow> s_content s)
     \<and> m_attachments m =
         (if ie_includeTranscript d = Some True \<and> tr_content t \<noteq> [] then
            Some [\<lparr>a_filename =
                      (case tr_filename t of
                         Some f \<Rightarrow> if f \<noteq> [] then f else ''transcript.txt''
                       | None \<Rightarrow> ''transcript.txt''),
                    a_content = tr_content t, a_type = ''text/plain''\<rparr>]
          else None)"
proof -
  have r: "post_api_email_send env uuid now st (Parsed d) =
           dispatch env uuid now st d (compose_mail d s t rs)"
    using assms(1-4) by (rule send_validated)
  have e: "hd (snd (snd (post_api_email_send env uuid now st (Parsed d))))
             = Sent (compose_mail d s t rs)"
    unfolding r using assms(5) by (simp add: dispatch_effects split: send_outcome.splits)
  have body: "m_text (compose_mail d s t rs) =
         (case ie_message d of
            Some msg \<Rightarrow> if msg \<noteq> [] then msg @ nl @ nl @ ''---'' @ nl @ nl else []
          | None \<Rightarrow> [])
         @ ''MEETING SUMMARY'' @ nl @ nl
         @ (case s_editedContent s of
              Some e \<Rightarrow> if e \<noteq> [] then e else s_content s
            | None \<Rightarrow> s_content s)"
    by (cases "s_editedContent s")
       (simp_all add: compose_mail_def emailBody_def summaryContent_def)
  have att: "m_attachments (compose_mail d s t rs) =
         (if ie_includeTranscript d = Some True \<and> tr_content t \<noteq> [] then
            Some [\<lparr>a_filename =
                      (case tr_filename t of
                         Some f \<Rightarrow> if f \<noteq> [] then f else ''transcript.txt''
                       | None \<Rightarrow> ''transcript.txt''),
                    a_content = tr_content t, a_type = ''text/plain''\<rparr>]
          else None)"
    by (cases "tr_filename t") (simp_all add: compose_mail_def attachments_def)
  show ?thesis
    by (rule exI [of _ "compose_mail d s t rs"])
       (simp only: e body att, simp add: compose_mail_def)
qed

theorem C6_email_composition_witness:
  "getSummary sample_storage (ie_summaryId sample_email) = Some sample_summary
   \<and> getTranscript sample_storage (s_transcriptId sample_summary) = Some sample_transcript
   \<and> recipients_json sample_mail_env = Some (JArr [JStr ''a@x.com''])
   \<and> resend sample_mail_env \<noteq> SetupThrew
   \<and> (\<exists>m. hd (snd (snd (post_api_email_send sample_mail_env ''e1'' 4 sample_storage
                            (Parsed sample_email)))) = Sent m
        \<and> m_to m = [JStr ''a@x.com'']
        \<and> m_text m = ''Hi all'' @ nl @ nl @ ''---'' @ nl @ nl
                       @ ''MEETING SUMMARY'' @ nl @ nl @ ''- Ship by Friday''
        \<and> m_attachments m =
            Some [\<lparr>a_filename = ''standup.txt'', a_content = ''Alice: ship by Friday.'',
                    a_type = ''text/plain''\<rparr>])"
proof -
  have h1: "getSummary sample_storage (ie_summaryId sample_email) = Some sample_summary"
    by (simp add: getSummary_def sample_storage_def sample_email_def)
  have h2: "getTranscript sample_storage (s_transcriptId sample_summary) = Some sample_transcript"
    by (simp add: getTranscript_def sample_storage_def sample_summary_def)
  have h3: "recipients_json sample_mail_env = Some (JArr [JStr ''a@x.com''])"
    by (simp add: sample_mail_env_def)
  have h4: "[JStr ''a@x.com''] \<noteq> []" by simp
  have h5: "resend sample_mail_env \<noteq> SetupThrew" by (simp add: sample_mail_env_def)
  from C6_email_composition [OF h1 h2 h3 h4 h5, of "''e1''" 4] h1 h2 h3 h5
  show ?thesis
    by (auto simp: sample_email_def sample_summary_def sample_transcript_def)
qed

lemma dispatch_cases:
  "dispatch env uuid now st d m =
     (case resend env of
        SetupThrew \<Rightarrow> (Failure 500 ''Failed to send email'', st, [])
      | SendThrew \<Rightarrow> (Failure 500 ''Failed to send email'', st, [Sent m])
      | SendError e \<Rightarrow>
          (Failure 500 (''Resend error: '' @ or_default e ''[object Object]''), st, [Sent m])
      | SendOk \<Rightarrow>
          (EmailShareJson (fst (createEmailShare st d uuid now)),
           st\<lparr>emailShares := (emailShares st)(uuid \<mapsto> fst (createEmailShare st d uuid now))\<rparr>,
           [Sent m, Saved (fst (createEmailShare st d uuid now))]))"
  by (simp add: dispatch_def createEmailShare_def Let_def split: send_outcome.splits)

lemma send_shape:
  "(\<exists>r. post_api_email_send env uuid now st body = (r, st, []))
   \<or> (\<exists>d m. body = Parsed d
          \<and> post_api_email_send env uuid now st body = dispatch env uuid now st d m)"
  by (auto simp: post_api_email_send_def
           split: parse_outcome.splits option.splits json.splits)

text \<open>
  C7. In every execution the effects of the handler are none, one send, or one send
  followed by one stored share: a share is stored only after the send. A share is
  stored only when the mail provider reported no error, and then it is the response
  and the only change to the storage; without it the storage is unchanged. When the
  mail provider answers the send with an error, the response is 500 with the
  "Resend error" message and no share is added.
\<close>

theorem C7_send_before_persist:
  "(snd (snd (post_api_email_send env uuid now st body)) = []
    \<or> (\<exists>m. snd (snd (post_api_email_send env uuid now st body)) = [Sent m])
    \<or> (\<exists>m e. snd (snd (post_api_email_send env uuid now st body)) = [Sent m, Saved e]))
   \<and> (\<forall>e. Saved e \<in> set (snd (snd (post_api_email_send env uuid now st body))) \<longrightarrow>
         resend env = SendOk
         \<and> fst (post_api_email_send env uuid now st body) = EmailShareJson e
         \<and> fst (snd (post_api_email_send env uuid now st body))
             = st\<lparr>emailShares := (emailShares st)(uuid \<mapsto> e)\<rparr>)
   \<and> ((\<forall>e. Saved e \<notin> set (snd (snd (post_api_email_send env uuid now st body)))) \<longrightarrow>
         fst (snd (post_api_email_send env uuid now st body)) = st)
   \<and> (\<forall>msg m. resend env = SendError msg
         \<and> Sent m \<in> set (snd (snd (post_api_email_send env uuid now st body))) \<longrightarrow>
         fst (post_api_email_send env uuid now st body)
           = Failure 500 (''Resend error: '' @ or_default msg ''[object Object]'')
         \<and> fst (snd (post_api_email_send env uuid now st body)) = st)
   \<and> (\<forall>msg. resend env = SendError msg \<longrightarrow>
         emailShares (fst (snd (post_api_email_send env uuid now st body))) = emailShares st)"
proof -
  let ?r = "post_api_email_send env uuid now st body"
  consider (early) r where "?r = (r, st, [])"
    | (sent) d m where "?r = dispatch env uuid now st d m"
    using send_shape [of env uuid now st body] by blast
  then show ?thesis
  proof cases
    case early
    then show ?thesis by simp
  next
    case sent
    show ?thesis
      unfolding sent dispatch_cases
      by (cases "resend env") simp_all
  qed
qed

theorem C7_send_before_persist_witness:
  "resend env_mail_rejected = SendError (Some ''Invalid API key'')
   \<and> snd (snd (post_api_email_send env_mail_rejected ''e1'' 4 sample_storage (Parsed sample_email)))
       = [Sent (compose_mail sample_email sample_summary sample_transcript [JStr ''a@x.com''])]
   \<and> fst (post_api_email_send env_mail_rejected ''e1'' 4 sample_storage (Parsed sample_email))
       = Failure 500 ''Resend error: Invalid API key''
   \<and> fst (snd (post_api_email_send env_mail_rejected ''e1'' 4 sample_storage (Parsed sample_email)))
       = sample_storage"
proof -
  let ?r = "post_api_email_send env_mail_rejected ''e1'' 4 sample_storage (Parsed sample_email)"
  let ?m = "compose_mail sample_email sample_summary sample_transcript [JStr ''a@x.com'']"
  have h1: "resend env_mail_rejected = SendError (Some ''Invalid API key'')"
    by (simp add: env_mail_rejected_def)
  have h2: "snd (snd ?r) = [Sent ?m]"
    by (simp add: post_api_email_send_def getSummary_def getTranscript_def
          sample_storage_def sample_email_def sample_summary_def env_mail_rejected_def
          dispatch_def)
  then have h3: "Sent ?m \<in> set (snd (snd ?r))" by simp
  from C7_send_before_persist [of env_mail_rejected "''e1''" 4 sample_storage "Parsed sample_email"]
    h1 h2 h3
  show ?thesis by auto
qed

section \<open>Claims about upstream failures\<close>

text \<open>
  With Gemini the only provider configured and answering with the error text
  "quota exceeded", the handler answers 500 with its fixed message, which contains
  neither that text nor the provider's name.
\<close>

theorem C8_ai_failure_is_generic_counterexample:
  "outcome env_gemini_down Gemini = NotOk ''quota exceeded''
   \<and> post_api_summaries env_gemini_down ''s2'' 3 sample_storage sample_request
       = (Failure 500 ''Failed to generate summary with available AI services'',
          sample_storage, [Gemini])
   \<and> \<not> sublist ''quota exceeded'' ''Failed to generate summary with available AI services''
   \<and> \<not> sublist ''Gemini'' ''Failed to generate summary with available AI services''"
proof -
  have q: "CHR ''q'' \<notin> set ''Failed to generate summary with available AI services''"
    and g: "CHR ''G'' \<notin> set ''Failed to generate summary with available AI services''"
    by simp_all
  have n1: "\<not> sublist ''quota exceeded'' ''Failed to generate summary with available AI services''"
    using q set_mono_sublist [of "''quota exceeded''"
      "''Failed to generate summary with available AI services''"] by auto
  have n2: "\<not> sublist ''Gemini'' ''Failed to generate summary with available AI services''"
    using g set_mono_sublist [of "''Gemini''"
      "''Failed to generate summary with available AI services''"] by auto
  have r: "post_api_summaries env_gemini_down ''s2'' 3 sample_storage sample_request
       = (Failure 500 ''Failed to generate summary with available AI services'',
          sample_storage, [Gemini])"
    by (simp add: post_api_summaries_def sample_request_def sample_storage_def
          getTranscript_def env_gemini_down_def provider_chain_def
          try_gemini_def try_openai_def try_groq_def chain_init_def
          googleApiKey_def openaiApiKey_def groqApiKey_def js_or_def Let_def)
  have o: "outcome env_gemini_down Gemini = NotOk ''quota exceeded''"
    by (simp add: env_gemini_down_def)
  from o r n1 n2 show ?thesis by blast
qed

text \<open>
  C8, amended. An error answer of the mail provider that carries a non-empty message
  is surfaced as 500 with the message "Resend error: " followed by the provider's
  message. A failure of the AI providers (a request with both fields for a stored
  transcript, some provider configured, and no configured provider returning a
  non-empty text) is surfaced as 500 with the fixed message
  "Failed to generate summary with available AI services".
\<close>

theorem C8_upstream_failures:
  "(\<forall>s t rs msg. getSummary st (ie_summaryId d) = Some s
        \<and> getTranscript st (s_transcriptId s) = Some t
        \<and> recipients_json menv = Some (JArr rs) \<and> rs \<noteq> []
        \<and> resend menv = SendError (Some msg) \<and> msg \<noteq> [] \<longrightarrow>
      fst (post_api_email_send menv uuid now st (Parsed d))
        = Failure 500 (''Resend error: '' @ msg))
   \<and> (\<forall>tid tr. rq_transcriptId body = Some tid \<and> tid \<noteq> [] \<and> truthy (rq_prompt body)
        \<and> transcripts st tid = Some tr
        \<and> (\<exists>p. configured env p)
        \<and> (\<forall>p. configured env p \<longrightarrow> \<not> succeeds (outcome env p)) \<longrightarrow>
      fst (post_api_summaries env uuid now st body)
        = Failure 500 ''Failed to generate summary with available AI services'')"
proof (intro conjI allI impI)
  fix s t rs msg
  assume h: "getSummary st (ie_summaryId d) = Some s
        \<and> getTranscript st (s_transcriptId s) = Some t
        \<and> recipients_json menv = Some (JArr rs) \<and> rs \<noteq> []
        \<and> resend menv = SendError (Some msg) \<and> msg \<noteq> []"
  then have "post_api_email_send menv uuid now st (Parsed d) =
           dispatch menv uuid now st d (compose_mail d s t rs)"
    using send_validated by blast
  with h show "fst (post_api_email_send menv uuid now st (Parsed d))
        = Failure 500 (''Resend error: '' @ msg)"
    by (simp add: dispatch_cases)
next
  fix tid tr
  assume h: "rq_transcriptId body = Some tid \<and> tid \<noteq> [] \<and> truthy (rq_prompt body)
        \<and> transcripts st tid = Some tr
        \<and> (\<exists>p. configured env p)
        \<and> (\<forall>p. configured env p \<longrightarrow> \<not> succeeds (outcome env p))"
  then obtain prompt where p: "rq_prompt body = Some prompt" "prompt \<noteq> []"
    by (cases "rq_prompt body") auto
  from h obtain q where "configured env q" by blast
  then have keys: "\<not> (\<not> truthy (googleApiKey env) \<and> \<not> truthy (openaiApiKey env)
              \<and> \<not> truthy (groqApiKey env))"
    by (cases q) auto
  have "\<not> truthy (aiSummary (provider_chain env))"
    using h chain_configured [of _ env] by (auto simp: chain_truthy)
  with h p keys show "fst (post_api_summaries env uuid now st body)
        = Failure 500 ''Failed to generate summary with available AI services''"
    by (simp add: post_api_summaries_def getTranscript_def Let_def)
qed

theorem C8_upstream_failures_witness:
  "fst (post_api_email_send env_mail_rejected ''e1'' 4 sample_storage (Parsed sample_email))
     = Failure 500 ''Resend error: Invalid API key''
   \<and> configured env_gemini_down Gemini
   \<and> fst (post_api_summaries env_gemini_down ''e1'' 4 sample_storage sample_request)
       = Failure 500 ''Failed to generate summary with available AI services''"
proof -
  have h1: "getSummary sample_storage (ie_summaryId sample_email) = Some sample_summary"
    by (simp add: getSummary_def sample_storage_def sample_email_def)
  have h2: "getTranscript sample_storage (s_transcriptId sample_summary) = Some sample_transcript"
    by (simp add: getTranscript_def sample_storage_def sample_summary_def)
  have h3: "recipients_json env_mail_rejected = Some (JArr [JStr ''a@x.com''])"
    and h4: "resend env_mail_rejected = SendError (Some ''Invalid API key'')"
    by (simp_all add: env_mail_rejected_def)
  have h5: "rq_transcriptId sample_request = Some ''t1''" and h6: "truthy (rq_prompt sample_request)"
    by (simp_all add: sample_request_def)
  have h7: "transcripts sample_storage ''t1'' = Some sample_transcript"
    by (simp add: sample_storage_def)
  have h8: "configured env_gemini_down Gemini"
    by (simp add: env_gemini_down_def googleApiKey_def)
  have h9: "\<forall>p. configured env_gemini_down p \<longrightarrow> \<not> succeeds (outcome env_gemini_down p)"
  proof (intro allI impI)
    fix p assume "configured env_gemini_down p"
    then show "\<not> succeeds (outcome env_gemini_down p)"
      by (cases p)
         (simp_all add: env_gemini_down_def googleApiKey_def openaiApiKey_def groqApiKey_def
            js_or_def)
  qed
  from C8_upstream_failures [of sample_storage sample_email env_mail_rejected "''e1''" 4
         sample_request env_gemini_down]
  have a: "fst (post_api_email_send env_mail_rejected ''e1'' 4 sample_storage (Parsed sample_email))
     = Failure 500 (''Resend error: '' @ ''Invalid API key'')"
    and b: "fst (post_api_summaries env_gemini_down ''e1'' 4 sample_storage sample_request)
       = Failure 500 ''Failed to generate summary with available AI services''"
    using h1 h2 h3 h4 h5 h6 h7 h8 h9 by blast+
  from a b h8 show ?thesis by simp
qed

section \<open>Claims about PATCH /api/summaries/:id\<close>

lemma patch_string:
  "summaries st i = Some s \<Longrightarrow>
   patch_api_summaries st i (Some (JStr x)) =
     (SummaryJson (s\<lparr>s_editedContent := Some x\<rparr>),
      st\<lparr>summaries := (summaries st)(i \<mapsto> s\<lparr>s_editedContent := Some x\<rparr>)\<rparr>)"
  by (simp add: patch_api_summaries_def updateSummaryContent_def Let_def)

text \<open>
  C9. For a summary stored under \<open>id\<close>, an edit with the string \<open>x\<close> answers with
  the summary whose \<open>editedContent\<close> is \<open>x\<close>, and reading \<open>id\<close> afterwards returns
  that same summary: its \<open>editedContent\<close> is \<open>x\<close>, and its \<open>content\<close>, \<open>id\<close>,
  \<open>transcriptId\<close>, \<open>prompt\<close> and \<open>createdAt\<close> are those from before the edit.
\<close>

theorem C9_edit_then_get:
  assumes "summaries st i = Some s"
  shows "fst (patch_api_summaries st i (Some (JStr x))) = SummaryJson (s\<lparr>s_editedContent := Some x\<rparr>)
     \<and> get_api_summaries (snd (patch_api_summaries st i (Some (JStr x)))) i
         = SummaryJson (s\<lparr>s_editedContent := Some x\<rparr>)
     \<and> getSummary (snd (patch_api_summaries st i (Some (JStr x)))) i
         = Some (s\<lparr>s_editedContent := Some x\<rparr>)
     \<and> s_editedContent (s\<lparr>s_editedContent := Some x\<rparr>) = Some x
     \<and> s_content (s\<lparr>s_editedContent := Some x\<rparr>) = s_content s
     \<and> s_id (s\<lparr>s_editedContent := Some x\<rparr>) = s_id s
     \<and> s_transcriptId (s\<lparr>s_editedContent := Some x\<rparr>) = s_transcriptId s
     \<and> s_prompt (s\<lparr>s_editedContent := Some x\<rparr>) = s_prompt s
     \<and> s_createdAt (s\<lparr>s_editedContent := Some x\<rparr>) = s_createdAt s"
  by (simp add: patch_string [OF assms] get_api_summaries_def getSummary_def)

theorem C9_edit_then_get_witness:
  "summaries sample_storage ''s1'' = Some sample_summary
   \<and> get_api_summaries
        (snd (patch_api_summaries sample_storage ''s1''
               (Some (JStr ''- Ship by Friday (owner: Alice)'')))) ''s1''
      = SummaryJson
          \<lparr>s_id = ''s1'', s_transcriptId = ''t1'', s_prompt = ''list action items'',
           s_content = ''- Ship by Friday'',
           s_editedContent = Some ''- Ship by Friday (owner: Alice)'', s_createdAt = 2\<rparr>"
proof -
  have h: "summaries sample_storage ''s1'' = Some sample_summary"
    by (simp add: sample_storage_def)
  from C9_edit_then_get [OF h, of "''- Ship by Friday (owner: Alice)''"] h
  show ?thesis by (simp add: sample_summary_def)
qed

text \<open>
  C10. An edit is answered 400 exactly when \<open>editedContent\<close> is not a string, and
  then with the message "editedContent must be a string" and no change; the empty
  string is accepted and stored as the \<open>editedContent\<close> of a stored summary. For a
  summary whose \<open>editedContent\<close> is the empty string the content chosen for the
  email is the original \<open>content\<close>, as when \<open>editedContent\<close> is absent: after such
  an edit, the mail that a validated send request hands to the provider carries
  \<open>content\<close> after the header.
\<close>

theorem C10_empty_edit_falls_back:
  "((\<exists>msg. fst (patch_api_summaries st i v) = Failure 400 msg) \<longleftrightarrow> (\<forall>e. v \<noteq> Some (JStr e)))
   \<and> ((\<forall>e. v \<noteq> Some (JStr e)) \<longrightarrow>
        patch_api_summaries st i v = (Failure 400 ''editedContent must be a string'', st))
   \<and> (\<forall>s. summaries st i = Some s \<longrightarrow>
        fst (patch_api_summaries st i (Some (JStr []))) = SummaryJson (s\<lparr>s_editedContent := Some []\<rparr>)
        \<and> getSummary (snd (patch_api_summaries st i (Some (JStr [])))) i
            = Some (s\<lparr>s_editedContent := Some []\<rparr>)
        \<and> summaryContent (s\<lparr>s_editedContent := Some []\<rparr>) = s_content s
        \<and> summaryContent (s\<lparr>s_editedContent := Some []\<rparr>)
            = summaryContent (s\<lparr>s_editedContent := None\<rparr>))
   \<and> (\<forall>s t rs. summaries st (ie_summaryId d) = Some s
        \<and> transcripts st (s_transcriptId s) = Some t
        \<and> recipients_json env = Some (JArr rs) \<and> rs \<noteq> [] \<and> resend env \<noteq> SetupThrew \<longrightarrow>
        (\<exists>m. hd (snd (snd (post_api_email_send env uuid now
                  (snd (patch_api_summaries st (ie_summaryId d) (Some (JStr []))))
                  (Parsed d)))) = Sent m
          \<and> m_text m =
              (case ie_message d of
                 Some msg \<Rightarrow> if msg \<noteq> [] then msg @ nl @ nl @ ''---'' @ nl @ nl else []
               | None \<Rightarrow> [])
              @ ''MEETING SUMMARY'' @ nl @ nl @ s_content s))"
proof (intro conjI allI impI)
  show "(\<exists>msg. fst (patch_api_summaries st i v) = Failure 400 msg) \<longleftrightarrow> (\<forall>e. v \<noteq> Some (JStr e))"
    by (auto simp: patch_api_summaries_def updateSummaryContent_def Let_def
             split: option.splits json.splits)
next
  assume "\<forall>e. v \<noteq> Some (JStr e)"
  then show "patch_api_summaries st i v = (Failure 400 ''editedContent must be a string'', st)"
    by (auto simp: patch_api_summaries_def split: option.splits json.splits)
next
  fix s assume s: "summaries st i = Some s"
  show "fst (patch_api_summaries st i (Some (JStr []))) = SummaryJson (s\<lparr>s_editedContent := Some []\<rparr>)"
    by (simp add: patch_string [OF s])
  show "getSummary (snd (patch_api_summaries st i (Some (JStr [])))) i
            = Some (s\<lparr>s_editedContent := Some []\<rparr>)"
    by (simp add: patch_string [OF s] getSummary_def)
  show "summaryContent (s\<lparr>s_editedContent := Some []\<rparr>) = s_content s"
    by (simp add: summaryContent_def)
  show "summaryContent (s\<lparr>s_editedContent := Some []\<rparr>)
            = summaryContent (s\<lparr>s_editedContent := None\<rparr>)"
    by (simp add: summaryContent_def)
next
  fix s t rs
  assume h: "summaries st (ie_summaryId d) = Some s
        \<and> transcripts st (s_transcriptId s) = Some t
        \<and> recipients_json env = Some (JArr rs) \<and> rs \<noteq> [] \<and> resend env \<noteq> SetupThrew"
  let ?s = "s\<lparr>s_editedContent := Some []\<rparr>"
  let ?st = "snd (patch_api_summaries st (ie_summaryId d) (Some (JStr [])))"
  have st: "?st = st\<lparr>summaries := (summaries st)(ie_summaryId d \<mapsto> ?s)\<rparr>"
    using h by (simp add: patch_string)
  have g1: "getSummary ?st (ie_summaryId d) = Some ?s"
    by (simp add: st getSummary_def)
  have g2: "getTranscript ?st (s_transcriptId ?s) = Some t"
    using h by (simp add: st getTranscript_def)
  have r: "post_api_email_send env uuid now ?st (Parsed d) =
           dispatch env uuid now ?st d (compose_mail d ?s t rs)"
    using g1 g2 h by (intro send_validated) simp_all
  have e: "hd (snd (snd (post_api_email_send env uuid now ?st (Parsed d))))
             = Sent (compose_mail d ?s t rs)"
    unfolding r using h by (simp add: dispatch_effects split: send_outcome.splits)
  have b: "m_text (compose_mail d ?s t rs) =
              (case ie_message d of
                 Some msg \<Rightarrow> if msg \<noteq> [] then msg @ nl @ nl @ ''---'' @ nl @ nl else []
               | None \<Rightarrow> [])
              @ ''MEETING SUMMARY'' @ nl @ nl @ s_content s"
    by (simp add: compose_mail_def emailBody_def summaryContent_def)
  from e b show "\<exists>m. hd (snd (snd (post_api_email_send env uuid now ?st (Parsed d)))) = Sent m
          \<and> m_text m =
              (case ie_message d of
                 Some msg \<Rightarrow> if msg \<noteq> [] then msg @ nl @ nl @ ''---'' @ nl @ nl else []
               | None \<Rightarrow> [])
              @ ''MEETING SUMMARY'' @ nl @ nl @ s_content s"
    by blast
qed

theorem C10_empty_edit_falls_back_witness:
  "summaries sample_storage ''s1'' = Some sample_summary
   \<and> fst (patch_api_summaries sample_storage ''s1'' (Some (JStr [])))
       = SummaryJson (sample_summary\<lparr>s_editedContent := Some []\<rparr>)
   \<and> patch_api_summaries sample_storage ''s1'' (Some (JNum 7))
       = (Failure 400 ''editedContent must be a string'', sample_storage)
   \<and> (\<exists>m. hd (snd (snd (post_api_email_send sample_mail_env ''e1'' 4
                  (snd (patch_api_summaries sample_storage ''s1'' (Some (JStr []))))
                  (Parsed sample_email)))) = Sent m
          \<and> m_text m = ''Hi all'' @ nl @ nl @ ''---'' @ nl @ nl
                         @ ''MEETING SUMMARY'' @ nl @ nl @ ''- Ship by Friday'')"
proof -
  have h1: "summaries sample_storage ''s1'' = Some sample_summary"
    and h2: "transcripts sample_storage ''t1'' = Some sample_transcript"
    by (simp_all add: sample_storage_def)
  have h3: "recipients_json sample_mail_env = Some (JArr [JStr ''a@x.com''])"
    and h4: "resend sample_mail_env \<noteq> SetupThrew"
    by (simp_all add: sample_mail_env_def)
  have h5: "ie_summaryId sample_email = ''s1''" "ie_message sample_email = Some ''Hi all''"
    by (simp_all add: sample_email_def)
  have h6: "s_transcriptId sample_summary = ''t1''" "s_content sample_summary = ''- Ship by Friday''"
    by (simp_all add: sample_summary_def)
  have h7: "\<forall>e. Some (JNum 7) \<noteq> Some (JStr e)" by simp
  note c = C10_empty_edit_falls_back [of sample_storage "''s1''" "Some (JNum 7)" sample_email
             sample_mail_env "''e1''" 4]
  from c h7 have a: "patch_api_summaries sample_storage ''s1'' (Some (JNum 7))
       = (Failure 400 ''editedContent must be a string'', sample_storage)" by blast
  from c h1 have b: "fst (patch_api_summaries sample_storage ''s1'' (Some (JStr [])))
       = SummaryJson (sample_summary\<lparr>s_editedContent := Some []\<rparr>)" by blast
  from c h1 h2 h3 h4 h5 h6
  have d: "\<exists>m. hd (snd (snd (post_api_email_send sample_mail_env ''e1'' 4
                  (snd (patch_api_summaries sample_storage ''s1'' (Some (JStr []))))
                  (Parsed sample_email)))) = Sent m
          \<and> m_text m = ''Hi all'' @ nl @ nl @ ''---'' @ nl @ nl
                         @ ''MEETING SUMMARY'' @ nl @ nl @ ''- Ship by Friday''"
    by auto
  from h1 a b d show ?thesis by blast
qed

end
